theory Spec2Isabelle
  imports Main "HOL-Library.Word"
begin

section \<open>The qmux session (mux/session.go)\<close>

text \<open>
  The session owns a transport, a channel table, a frame encoder and decoder, the
  rendezvous channel \<open>inbox\<close>, the buffered channel \<open>closeCh\<close> and the stored
  error. Methods are modelled as functions from a session state to a result and the
  session state after the call. What the environment decides (the result of a write on
  the transport, which case of a \<open>select\<close> fires, what the decoder reads) is an
  argument of the function.
\<close>

subsection \<open>Constants\<close>

type_synonym uint32 = "32 word"
type_synonym byte = "8 word"

text \<open>The untyped Go constants of session.go, lines 14 to 28.\<close>

definition minPacketLength :: nat where
  "minPacketLength = 9"

definition maxPacketLength :: nat where
  "maxPacketLength = 2 ^ 31"

definition channelMaxPacket :: nat where
  "channelMaxPacket = 2 ^ 24"

definition channelWindowSize :: nat where
  "channelWindowSize = 64 * channelMaxPacket"

definition chanSize :: nat where
  "chanSize = 16"

text \<open>\<open>openTimeout = 30 * time.Second\<close>, a duration in nanoseconds.\<close>

definition openTimeout :: nat where
  "openTimeout = 30 * 1000000000"

subsection \<open>Frames\<close>

text \<open>
  Modelled from the spec: the package \<open>mux/frame\<close> (the message types and their
  \<open>Channel\<close> method) is not among the sources. The spec gives the closed set of
  variants, "each carrying a channel ID except Open", with unsigned fixed-width fields.
\<close>

datatype Message =
    OpenMessage (SenderID: uint32) (WindowSize: uint32) (MaxPacketSize: uint32)
  | OpenConfirmMessage (ChannelID: uint32) (SenderID: uint32) (WindowSize: uint32)
      (MaxPacketSize: uint32)
  | OpenFailureMessage (ChannelID: uint32)
  | DataMessage (ChannelID: uint32) (Payload: "byte list")
  | WindowAdjustMessage (ChannelID: uint32) (AdditionalBytes: uint32)
  | EOFMessage (ChannelID: uint32)
  | CloseMessage (ChannelID: uint32)

text \<open>\<open>msg.Channel()\<close>: the channel id of a frame, and whether it has one.\<close>

fun Channel :: "Message \<Rightarrow> uint32 \<times> bool" where
  "Channel (OpenMessage sid ws mps) = (0, False)"
| "Channel (OpenConfirmMessage cid sid ws mps) = (cid, True)"
| "Channel (OpenFailureMessage cid) = (cid, True)"
| "Channel (DataMessage cid bs) = (cid, True)"
| "Channel (WindowAdjustMessage cid n) = (cid, True)"
| "Channel (EOFMessage cid) = (cid, True)"
| "Channel (CloseMessage cid) = (cid, True)"

subsection \<open>Errors\<close>

text \<open>
  The error values the session and the RPC layer return: \<open>io.EOF\<close>,
  \<open>net.ErrClosed\<close>, the errors built with \<open>fmt.Errorf\<close> (the one whose text
  formats a frame keeps the frame), a context's error and any other error of the
  transport or the codec, by its text.
\<close>

datatype error =
    EOF
  | ErrClosed
  | Errorf string
  | UnexpectedPacket Message
  | InvalidChannel uint32
  | ContextError string
  | IOError string

subsection \<open>Channels and the channel table\<close>

datatype channelDirection = channelInbound | channelOutbound

text \<open>
  The fields of \<open>channel\<close> that session.go reads or writes. The back reference
  \<open>session\<close> and the condition variable of the window carry no data.
\<close>

record channel =
  localId :: uint32
  remoteId :: uint32
  maxIncomingPayload :: uint32
  maxRemotePayload :: uint32
  remoteWin :: uint32
  myWindow :: uint32
  pending :: "byte list"
  direction :: channelDirection
  msg :: "Message list"
  packetBuf :: "byte list"

text \<open>
  Modelled from the spec: \<open>chanList\<close> and its methods \<open>add\<close>, \<open>getChan\<close> and
  \<open>dropAll\<close> are not among the sources. The spec: "The channel table maps
  local_id to channel. add assigns the lowest free id; drop_all empties the table
  atomically at shutdown." The table is a list of slots, a slot holding a channel or nil.
\<close>

type_synonym chanList = "channel option list"

fun free_slot :: "chanList \<Rightarrow> nat option" where
  "free_slot [] = None"
| "free_slot (None # cs) = Some 0"
| "free_slot (Some x # cs) = map_option Suc (free_slot cs)"

definition chanList_add :: "channel \<Rightarrow> chanList \<Rightarrow> uint32 \<times> chanList" where
  "chanList_add x cs =
     (case free_slot cs of
        Some i \<Rightarrow> (of_nat i, cs[i := Some x])
      | None \<Rightarrow> (of_nat (length cs), cs @ [Some x]))"

definition getChan :: "uint32 \<Rightarrow> chanList \<Rightarrow> channel option" where
  "getChan i cs = (if unat i < length cs then cs ! unat i else None)"

definition dropAll :: "chanList \<Rightarrow> channel list \<times> chanList" where
  "dropAll cs = (List.map_filter (\<lambda>x. x) cs, [])"

text \<open>
  The table holds pointers: a field written on a channel after \<open>add\<close> is seen through
  the table. \<open>store_chan\<close> writes the channel back to the slot of its local id.
\<close>

definition store_chan :: "channel \<Rightarrow> chanList \<Rightarrow> chanList" where
  "store_chan x cs = cs[unat (localId x) := Some x]"

subsection \<open>The session state\<close>

text \<open>
  An opaque handle for the \<open>io.ReadWriteCloser\<close> the session runs over; a nil
  interface is \<open>None\<close> of \<open>transport option\<close>.
\<close>

datatype transport = Transport nat

text \<open>
  What the session does to the objects around it, in program order: a frame handed to
  the encoder, a channel handed to \<open>Accept\<close> through the inbox, the close routine of
  a channel, \<open>Close\<close> on the transport, the send on \<open>closeCh\<close>, and the store of
  the terminating error.
\<close>

datatype effect =
    Encode Message
  | InboxSend uint32
  | ChannelClose uint32
  | TransportClose
  | CloseChSend
  | ErrStore error

text \<open>
  Field \<open>t\<close> of the source is \<open>t_rwc\<close> here; \<open>t_closed\<close> is the state of the
  transport. \<open>closeCh\<close> is the content of the buffered channel of capacity 1.
\<close>

record session =
  t_rwc :: transport
  t_closed :: bool
  chans :: chanList
  err :: "error option"
  closeCh :: "bool list"
  trace :: "effect list"

text \<open>
  \<open>s.enc.Encode(m)\<close>: the frame is handed to the encoder; the error it returns is the
  transport's answer, the argument \<open>res\<close>.
\<close>

definition enc_Encode :: "error option \<Rightarrow> Message \<Rightarrow> session \<Rightarrow> error option \<times> session" where
  "enc_Encode res m s = (res, s\<lparr>trace := trace s @ [Encode m]\<rparr>)"

text \<open>
  The session \<open>New\<close> builds (lines 63 to 70): an empty table, no error, an empty
  \<open>closeCh\<close>, nothing done yet.
\<close>

definition new_session :: "transport \<Rightarrow> session" where
  "new_session rwc =
     \<lparr>t_rwc = rwc, t_closed = False, chans = [], err = None, closeCh = [], trace = []\<rparr>"

text \<open>\<open>New\<close> (lines 59 to 73). The second component lists the goroutines started.\<close>

datatype goroutine = go_loop

definition New :: "transport option \<Rightarrow> session option \<times> goroutine list" where
  "New t =
     (case t of
        None \<Rightarrow> (None, [])
      | Some rwc \<Rightarrow> (Some (new_session rwc), [go_loop]))"

text \<open>\<open>newChannel\<close> (lines 138 to 150).\<close>

definition newChannel :: "channelDirection \<Rightarrow> session \<Rightarrow> channel \<times> session" where
  "newChannel d s =
     (let ch0 = \<lparr>localId = 0, remoteId = 0, maxIncomingPayload = 0, maxRemotePayload = 0,
                 remoteWin = 0, myWindow = of_nat channelWindowSize, pending = [],
                 direction = d, msg = [], packetBuf = []\<rparr>;
          (i, cs) = chanList_add ch0 (chans s);
          ch1 = ch0\<lparr>localId := i\<rparr>
      in (ch1, s\<lparr>chans := store_chan ch1 cs\<rparr>))"

text \<open>
  The \<open>select\<close> of \<open>handleOpen\<close>: either a goroutine in \<open>Accept\<close> receives the
  channel from the inbox, or the timer of \<open>openTimeout\<close> fires first. What decides is
  when, counted in nanoseconds from the start of the timer, a goroutine is ready in
  \<open>Accept\<close> to receive from the inbox, if one ever is; when that is the very instant
  the timer fires, both cases are ready and \<open>tie\<close> is the choice made (true: the
  inbox).
\<close>

datatype open_select = inbox_received | timer_fired

datatype acceptor = never | ready_at nat

definition select_open :: "acceptor \<Rightarrow> bool \<Rightarrow> open_select" where
  "select_open acc tie =
     (case acc of
        never \<Rightarrow> timer_fired
      | ready_at n \<Rightarrow>
          (if n < openTimeout then inbox_received
           else if openTimeout < n then timer_fired
           else if tie then inbox_received else timer_fired))"

text \<open>
  Modelled from the spec: the method \<open>add\<close> of the window (mux/channel.go) is not
  among the sources. The spec has \<open>handle_open\<close> seed \<open>remote_window\<close> from
  \<open>msg.window_size\<close>: the bytes are added to the window.
\<close>

definition window_add :: "uint32 \<Rightarrow> uint32 \<Rightarrow> uint32" where
  "window_add win n = win + n"

text \<open>\<open>handleOpen\<close> (lines 197 to 224).\<close>

definition handleOpen ::
  "acceptor \<Rightarrow> bool \<Rightarrow> error option \<Rightarrow> Message \<Rightarrow> session \<Rightarrow>
   error option \<times> session" where
  "handleOpen acc tie res m s =
     (if unat (MaxPacketSize m) < minPacketLength \<or> unat (MaxPacketSize m) > maxPacketLength
      then enc_Encode res (OpenFailureMessage (SenderID m)) s
      else
        let (c0, s1) = newChannel channelInbound s;
            c1 = c0\<lparr>remoteId := SenderID m,
                    maxRemotePayload := MaxPacketSize m,
                    remoteWin := window_add (remoteWin c0) (WindowSize m),
                    maxIncomingPayload := of_nat channelMaxPacket\<rparr>;
            s2 = s1\<lparr>chans := store_chan c1 (chans s1)\<rparr>
        in case select_open acc tie of
             inbox_received \<Rightarrow>
               enc_Encode res
                 (OpenConfirmMessage (remoteId c1) (localId c1) (myWindow c1)
                    (maxIncomingPayload c1))
                 (s2\<lparr>trace := trace s2 @ [InboxSend (localId c1)]\<rparr>)
           | timer_fired \<Rightarrow>
               enc_Encode res (OpenFailureMessage (SenderID m)) s2)"

text \<open>
  The \<open>select\<close> of \<open>Open\<close>: either the context is done (\<open>ctx.Err()\<close> is then
  the error given), or a message arrives on \<open>ch.msg\<close>; a nil message is \<open>None\<close>.
\<close>

datatype open_wait = ctx_Done error | msg_received "Message option"

text \<open>\<open>Open\<close> (lines 103 to 136).\<close>

definition Open ::
  "error option \<Rightarrow> open_wait \<Rightarrow> session \<Rightarrow> (error + channel) \<times> session" where
  "Open res w s =
     (let (c0, s1) = newChannel channelOutbound s;
          c1 = c0\<lparr>maxIncomingPayload := of_nat channelMaxPacket\<rparr>;
          s2 = s1\<lparr>chans := store_chan c1 (chans s1)\<rparr>;
          (r, s3) = enc_Encode res
                      (OpenMessage (localId c1) (myWindow c1) (maxIncomingPayload c1)) s2
      in case r of
           Some e \<Rightarrow> (Inl e, s3)
         | None \<Rightarrow>
             (case w of
                ctx_Done e \<Rightarrow> (Inl e, s3)
              | msg_received None \<Rightarrow> (Inl ErrClosed, s3)
              | msg_received (Some m) \<Rightarrow>
                  (case m of
                     OpenConfirmMessage cid sid ws mps \<Rightarrow> (Inr c1, s3)
                   | OpenFailureMessage cid \<Rightarrow>
                       (Inl (Errorf ''qmux: channel open failed on remote side''), s3)
                   | _ \<Rightarrow> (Inl (UnexpectedPacket m), s3))))"

text \<open>
  \<open>Accept\<close> (lines 93 to 100). \<open>offer\<close> is the channel a concurrent
  \<open>handleOpen\<close> is sending on the inbox, if any; \<open>pick\<close> is the choice of the
  \<open>select\<close> when both cases are ready (true: the inbox). With no case ready the call
  blocks: \<open>None\<close>. Receiving from \<open>closeCh\<close> takes the value out of its buffer.
\<close>

definition Accept ::
  "channel option \<Rightarrow> bool \<Rightarrow> session \<Rightarrow> ((error + channel) \<times> session) option" where
  "Accept offer pick s =
     (case (offer, closeCh s) of
        (None, []) \<Rightarrow> None
      | (None, b # bs) \<Rightarrow> Some (Inl EOF, s\<lparr>closeCh := bs\<rparr>)
      | (Some x, []) \<Rightarrow> Some (Inr x, s)
      | (Some x, b # bs) \<Rightarrow>
          (if pick then Some (Inr x, s) else Some (Inl EOF, s\<lparr>closeCh := bs\<rparr>)))"

text \<open>
  \<open>Wait\<close> (lines 83 to 90) returns the stored error once there is one; while
  \<open>s.err\<close> is nil it blocks: \<open>None\<close>.
\<close>

definition Wait :: "session \<Rightarrow> error option" where
  "Wait s = err s"

text \<open>\<open>s.t.Close()\<close>, and \<open>Close\<close> of the session (lines 76 to 79).\<close>

definition t_Close :: "session \<Rightarrow> session" where
  "t_Close s = s\<lparr>t_closed := True, trace := trace s @ [TransportClose]\<rparr>"

definition session_Close :: "session \<Rightarrow> error option \<times> session" where
  "session_Close s = (None, t_Close s)"

text \<open>
  What one run of \<open>onePacket\<close> meets: the result of \<open>s.dec.Decode()\<close> and, for an
  \<open>Open\<close> frame, when a goroutine is ready in \<open>Accept\<close>, the choice at a tie and
  the answer of the encoder.
\<close>

record packet_env =
  decoded :: "error + Message"
  accepting :: acceptor
  tied :: bool
  encoded :: "error option"

text \<open>
  \<open>ch.handle(msg)\<close> of mux/channel.go is not among the sources: it is a parameter of
  \<open>onePacket\<close> and \<open>loop\<close>.
\<close>

type_synonym handle_fn = "Message \<Rightarrow> channel \<Rightarrow> session \<Rightarrow> error option \<times> session"

text \<open>\<open>onePacket\<close> (lines 174 to 194).\<close>

definition onePacket :: "handle_fn \<Rightarrow> packet_env \<Rightarrow> session \<Rightarrow> error option \<times> session" where
  "onePacket h p s =
     (case decoded p of
        Inl e \<Rightarrow> (Some e, s)
      | Inr m \<Rightarrow>
          (let (i, isChan) = Channel m
           in if \<not> isChan then handleOpen (accepting p) (tied p) (encoded p) m s
              else case getChan i (chans s) of
                     None \<Rightarrow> (Some (InvalidChannel i), s)
                   | Some x \<Rightarrow> h m x s))"

text \<open>
  The \<open>for\<close> of \<open>loop\<close> (lines 155 to 158) over what arrives on the transport. When
  nothing more arrives the decoder blocks and the loop does not return: \<open>None\<close>.
\<close>

fun loop_packets ::
  "handle_fn \<Rightarrow> packet_env list \<Rightarrow> session \<Rightarrow> (error \<times> session) option" where
  "loop_packets h [] s = None"
| "loop_packets h (p # ps) s =
     (case onePacket h p s of
        (Some e, s1) \<Rightarrow> Some (e, s1)
      | (None, s1) \<Rightarrow> loop_packets h ps s1)"

text \<open>
  Modelled from the spec: the close routine \<open>ch.close()\<close> of mux/channel.go is not
  among the sources ("invoking each channel's close routine so blocked readers/writers
  unblock with EOF/closed"). Its call is recorded.
\<close>

definition channel_close :: "channel \<Rightarrow> session \<Rightarrow> session" where
  "channel_close x s = s\<lparr>trace := trace s @ [ChannelClose (localId x)]\<rparr>"

text \<open>
  The send \<open>s.closeCh <- true\<close> on the buffered channel of capacity 1: with a value
  already in the buffer the send blocks, \<open>None\<close>.
\<close>

definition closeCh_send :: "session \<Rightarrow> session option" where
  "closeCh_send s =
     (case closeCh s of
        [] \<Rightarrow> Some (s\<lparr>closeCh := [True], trace := trace s @ [CloseChSend]\<rparr>)
      | b # bs \<Rightarrow> None)"

definition store_err :: "error \<Rightarrow> session \<Rightarrow> session" where
  "store_err e s = s\<lparr>err := Some e, trace := trace s @ [ErrStore e]\<rparr>"

text \<open>What \<open>loop\<close> does once the \<open>for\<close> has ended with \<open>e\<close> (lines 160 to 170).\<close>

definition loop_shutdown :: "error \<Rightarrow> session \<Rightarrow> session option" where
  "loop_shutdown e s =
     (let (dropped, cs) = dropAll (chans s);
          s1 = fold channel_close dropped (s\<lparr>chans := cs\<rparr>);
          s2 = t_Close s1
      in map_option (store_err e) (closeCh_send s2))"

text \<open>\<open>loop\<close> (lines 154 to 171). \<open>None\<close>: the goroutine never ends.\<close>

definition loop :: "handle_fn \<Rightarrow> packet_env list \<Rightarrow> session \<Rightarrow> session option" where
  "loop h ps s =
     (case loop_packets h ps s of
        None \<Rightarrow> None
      | Some (e, s1) \<Rightarrow> loop_shutdown e s1)"

section \<open>The RPC responder and server (package rpc)\<close>

subsection \<open>Values, headers and the channel under a responder\<close>

text \<open>
  A Go value of type \<open>any\<close> handed to \<open>Return\<close>, \<open>Continue\<close> or \<open>Send\<close>: the
  nil interface, a value that implements \<open>error\<close> (with the text its \<open>Error()\<close>
  returns), or any other value (by its encoding).
\<close>

datatype any = nil | ErrorValue string | Value string

record ResponseHeader =
  Error :: "string option"
  Continue :: bool

text \<open>What \<open>Send\<close> is called with: the response header, or a value.\<close>

datatype framed = Header ResponseHeader | Val any

text \<open>
  \<open>mux.Channel\<close> is an interface. The RPC layer is modelled over what it does to the
  channel, in order: a framed value encoded on it, or a call of \<open>Close\<close>.
\<close>

datatype chan_event = Encoded framed | Closed

record mux_Channel =
  events :: "chan_event list"

text \<open>
  \<open>codec.Codec\<close> is an interface too: a codec is what \<open>Encoder(ch).Encode(v)\<close>
  answers for a value on a channel, \<open>None\<close> when the value was written. In the same
  way \<open>closer\<close> is what \<open>Close()\<close> answers on a channel.
\<close>

type_synonym codec = "framed \<Rightarrow> mux_Channel \<Rightarrow> error option"
type_synonym closer = "mux_Channel \<Rightarrow> error option"

definition mux_Close :: "closer \<Rightarrow> mux_Channel \<Rightarrow> error option \<times> mux_Channel" where
  "mux_Close cl x = (cl x, x\<lparr>events := events x @ [Closed]\<rparr>)"

subsection \<open>The responder (part\_000, lines 97 to 154)\<close>

record responder =
  responded :: bool
  header :: ResponseHeader
  ch :: mux_Channel
  c :: codec

definition responder_Send :: "framed \<Rightarrow> responder \<Rightarrow> error option \<times> responder" where
  "responder_Send v r =
     (case c r v (ch r) of
        Some e \<Rightarrow> (Some e, r)
      | None \<Rightarrow> (None, r\<lparr>ch := (ch r)\<lparr>events := events (ch r) @ [Encoded v]\<rparr>\<rparr>))"

text \<open>The \<open>for _, v := range values\<close> of \<open>respond\<close>, ending at the first error.\<close>

fun send_values :: "any list \<Rightarrow> responder \<Rightarrow> error option \<times> responder" where
  "send_values [] r = (None, r)"
| "send_values (v # vs) r =
     (case responder_Send (Val v) r of
        (Some e, r1) \<Rightarrow> (Some e, r1)
      | (None, r1) \<Rightarrow> send_values vs r1)"

text \<open>
  \<open>respond\<close> (lines 116 to 154). The type assertion \<open>values[0].(error)\<close> holds
  exactly for an \<open>ErrorValue\<close>, and then \<open>e\<close> is not nil.
\<close>

definition responder_respond ::
  "closer \<Rightarrow> any list \<Rightarrow> bool \<Rightarrow> responder \<Rightarrow> error option \<times> responder" where
  "responder_respond cl values continue r =
     (let r1 = r\<lparr>responded := True, header := (header r)\<lparr>Continue := continue\<rparr>\<rparr>;
          (values1, r2) =
            (case values of
               [ErrorValue errStr] \<Rightarrow>
                 ([nil], r1\<lparr>header := (header r1)\<lparr>Error := Some errStr\<rparr>\<rparr>)
             | _ \<Rightarrow> (values, r1))
      in case responder_Send (Header (header r2)) r2 of
           (Some e, r3) \<Rightarrow> (Some e, r3)
         | (None, r3) \<Rightarrow>
             (let values2 = (if length values1 = 0 then [nil] else values1)
              in case send_values values2 r3 of
                   (Some e, r4) \<Rightarrow> (Some e, r4)
                 | (None, r4) \<Rightarrow>
                     (if \<not> continue
                      then (let (e, x) = mux_Close cl (ch r4) in (e, r4\<lparr>ch := x\<rparr>))
                      else (None, r4))))"

definition responder_Return :: "closer \<Rightarrow> any list \<Rightarrow> responder \<Rightarrow> error option \<times> responder" where
  "responder_Return cl v r = responder_respond cl v False r"

text \<open>
  \<open>Continue\<close> returns \<open>r.ch\<close> and the error of \<open>respond\<close>. The channel is a
  reference: the caller holds the channel as \<open>respond\<close> left it.
\<close>

definition responder_Continue ::
  "closer \<Rightarrow> any list \<Rightarrow> responder \<Rightarrow> (mux_Channel \<times> error option) \<times> responder" where
  "responder_Continue cl v r =
     (let (e, r1) = responder_respond cl v True r in ((ch r1, e), r1))"

text \<open>
  The states of the spec's responder state machine, read off the fields: unresponded
  until \<open>respond\<close> has set \<open>responded\<close>, then continued or returned as
  \<open>header.Continue\<close> says.
\<close>

datatype responder_state = unresponded | returned_state | continued

definition state_of :: "responder \<Rightarrow> responder_state" where
  "state_of r =
     (if \<not> responded r then unresponded
      else if Continue (header r) then continued else returned_state)"

subsection \<open>The server (part\_000, lines 168 to 279)\<close>

text \<open>
  A handler gets the responder as the interface \<open>Responder\<close>: what it can do to it is
  a sequence of calls of \<open>Return\<close>, \<open>Continue\<close> and \<open>Send\<close>.
\<close>

datatype action = call_Return "any list" | call_Continue "any list" | call_Send any

fun RespondRPC :: "closer \<Rightarrow> action list \<Rightarrow> responder \<Rightarrow> responder" where
  "RespondRPC cl [] r = r"
| "RespondRPC cl (call_Return vs # as) r = RespondRPC cl as (snd (responder_Return cl vs r))"
| "RespondRPC cl (call_Continue vs # as) r = RespondRPC cl as (snd (responder_Continue cl vs r))"
| "RespondRPC cl (call_Send v # as) r = RespondRPC cl as (snd (responder_Send (Val v) r))"

text \<open>
  \<open>Server.respond\<close> (lines 219 to 257). \<open>framer\<close> is the frame codec over the
  server's codec, \<open>dec\<close> the result of decoding the call header, \<open>hn\<close> the handler,
  \<open>x\<close> the accepted channel. The result is the channel when the goroutine ends.
\<close>

definition Server_respond ::
  "closer \<Rightarrow> codec \<Rightarrow> error option \<Rightarrow> action list \<Rightarrow> mux_Channel \<Rightarrow> mux_Channel" where
  "Server_respond cl framer dec hn x =
     (case dec of
        Some e \<Rightarrow> x
      | None \<Rightarrow>
          (let resp = \<lparr>responded = False, header = \<lparr>Error = None, Continue = False\<rparr>,
                       ch = x, c = framer\<rparr>;
               r1 = RespondRPC cl hn resp;
               r2 = (if \<not> responded r1 then snd (responder_Return cl [] r1) else r1)
           in if \<not> Continue (header r2) then snd (mux_Close cl (ch r2)) else ch r2))"

text \<open>
  \<open>Server\<close>: a nil \<open>Handler\<close> or \<open>Codec\<close> is \<open>None\<close>. The field \<open>sess\<close> is
  an interface; what its methods answer is an argument of \<open>Respond\<close> and \<open>Call\<close>.
\<close>

record Server =
  Handler :: "action list option"
  Codec :: "codec option"

text \<open>How a call of \<open>Respond\<close> ends, and what it did until then.\<close>

datatype outcome = returned | panic_string string | panic_error error

record Respond_result =
  ended :: outcome
  accept_calls :: nat
  started :: "mux_Channel list"
  sess_closed :: bool

text \<open>
  The \<open>for\<close> of \<open>Respond\<close> (lines 207 to 216) over what \<open>sess.Accept()\<close> returns,
  call after call; \<open>n\<close> counts the calls and \<open>acc\<close> collects the channels a
  \<open>respond\<close> goroutine was started for. With no further answer \<open>Accept\<close> blocks.
\<close>

fun accept_loop ::
  "(error + mux_Channel) list \<Rightarrow> nat \<Rightarrow> mux_Channel list \<Rightarrow>
   (outcome \<times> nat \<times> mux_Channel list) option" where
  "accept_loop [] n acc = None"
| "accept_loop (Inl e # rest) n acc =
     (if e = EOF then Some (returned, Suc n, acc) else Some (panic_error e, Suc n, acc))"
| "accept_loop (Inr x # rest) n acc = accept_loop rest (Suc n) (acc @ [x])"

text \<open>
  \<open>Server.Respond\<close> (lines 195 to 217). The deferred \<open>sess.Close()\<close> runs on return
  and on panic. The handler chosen at lines 202 to 205 is handed to the goroutines
  and plays no part in how \<open>Respond\<close> ends.
\<close>

definition Server_Respond :: "Server \<Rightarrow> (error + mux_Channel) list \<Rightarrow> Respond_result option" where
  "Server_Respond srv accepts =
     (if Codec srv = None
      then Some \<lparr>ended = panic_string ''rpc.Respond: nil codec'', accept_calls = 0,
                 started = [], sess_closed = True\<rparr>
      else case accept_loop accepts 0 [] of
             None \<Rightarrow> None
           | Some (out, n, acc) \<Rightarrow>
               Some \<lparr>ended = out, accept_calls = n, started = acc, sess_closed = True\<rparr>)"

text \<open>
  The \<open>select\<close> of the goroutine \<open>Call\<close> starts: it receives from \<open>ctx.Done()\<close>
  and closes the channel, or it receives from \<open>done\<close>, closed when \<open>Call\<close> returns.
\<close>

datatype watcher_select = ctx_Done_received | done_received

definition watcher :: "closer \<Rightarrow> watcher_select \<Rightarrow> mux_Channel \<Rightarrow> mux_Channel" where
  "watcher cl w x =
     (case w of
        ctx_Done_received \<Rightarrow> snd (mux_Close cl x)
      | done_received \<Rightarrow> x)"

text \<open>
  What a call of \<open>Server.Call\<close> meets: the answer of \<open>s.sess.Open(ctx)\<close>, the case
  the watcher's \<open>select\<close> takes, the function \<open>call\<close> of the package (not among the
  sources: it maps the channel to its results and the channel after its exchange), and
  what \<open>ctx.Err()\<close> answers once \<open>call\<close> has returned.
\<close>

record 'resp call_env =
  open_result :: "error + mux_Channel"
  watcher_case :: watcher_select
  call_fn :: "mux_Channel \<Rightarrow> ('resp option \<times> error option) \<times> mux_Channel"
  ctx_Err :: "error option"

text \<open>
  \<open>Server.Call\<close> (lines 258 to 279): the values returned, and the channel opened
  (if any) once \<open>Call\<close> and its watcher have ended. The watcher runs beside \<open>call\<close>;
  its \<open>Close\<close> is recorded on the channel.
\<close>

definition Server_Call ::
  "closer \<Rightarrow> 'resp call_env \<Rightarrow> ('resp option \<times> error option) \<times> mux_Channel option" where
  "Server_Call cl env =
     (case open_result env of
        Inl e \<Rightarrow> ((None, Some e), None)
      | Inr x \<Rightarrow>
          (let ((resp, e), x1) = call_fn env x;
               x2 = watcher cl (watcher_case env) x1
           in case ctx_Err env of
                Some ctxErr \<Rightarrow> ((resp, Some ctxErr), Some x2)
              | None \<Rightarrow> ((resp, e), Some x2)))"

section \<open>The session: properties\<close>

subsection \<open>The channel table and \<open>handleOpen\<close>\<close>

lemma newChannel_trace: "trace (snd (newChannel d s)) = trace s"
  by (simp add: newChannel_def Let_def case_prod_beta)

lemma newChannel_myWindow: "myWindow (fst (newChannel d s)) = of_nat channelWindowSize"
  by (simp add: newChannel_def Let_def case_prod_beta)

lemma free_slot_Some: "free_slot cs = Some i \<Longrightarrow> i < length cs \<and> cs ! i = None"
proof (induction cs arbitrary: i)
  case Nil
  then show ?case by simp
next
  case (Cons a cs)
  show ?case
  proof (cases a)
    case None
    with Cons.prems show ?thesis by simp
  next
    case (Some y)
    with Cons.prems obtain j where "free_slot cs = Some j" "i = Suc j" by auto
    with Cons.IH show ?thesis by simp
  qed
qed

lemma store_chan_length: "length (store_chan x cs) = length cs"
  by (simp add: store_chan_def)

lemma store_chan_keeps_Some: "i < length cs \<Longrightarrow> cs ! i \<noteq> None \<Longrightarrow> store_chan x cs ! i \<noteq> None"
  by (cases "i = unat (localId x)") (simp_all add: store_chan_def)

lemma chanList_add_changes:
  "chanList_add x cs = (i, cs') \<Longrightarrow>
   length cs < length cs' \<or> (length cs' = length cs \<and> (\<exists>j < length cs. cs ! j = None \<and> cs' ! j \<noteq> None))"
proof (cases "free_slot cs")
  case None
  assume "chanList_add x cs = (i, cs')"
  with None have "cs' = cs @ [Some x]" by (simp add: chanList_add_def)
  then show ?thesis by simp
next
  case (Some k)
  assume "chanList_add x cs = (i, cs')"
  with Some have cs': "cs' = cs[k := Some x]" by (simp add: chanList_add_def)
  from free_slot_Some [OF Some] have k: "k < length cs" "cs ! k = None" by simp_all
  from k cs' have "cs' ! k \<noteq> None" by simp
  with k cs' show ?thesis by auto
qed

lemma newChannel_changes:
  "length (chans s) < length (chans (snd (newChannel d s))) \<or>
   (length (chans (snd (newChannel d s))) = length (chans s) \<and>
    (\<exists>j < length (chans s). chans s ! j = None \<and> chans (snd (newChannel d s)) ! j \<noteq> None))"
proof -
  obtain i cs' where a: "chanList_add \<lparr>localId = 0, remoteId = 0, maxIncomingPayload = 0, maxRemotePayload = 0,
                 remoteWin = 0, myWindow = of_nat channelWindowSize, pending = [],
                 direction = d, msg = [], packetBuf = []\<rparr> (chans s) = (i, cs')"
    by (cases "chanList_add \<lparr>localId = 0, remoteId = 0, maxIncomingPayload = 0, maxRemotePayload = 0,
                 remoteWin = 0, myWindow = of_nat channelWindowSize, pending = [],
                 direction = d, msg = [], packetBuf = []\<rparr> (chans s)")
  let ?x = "\<lparr>localId = i, remoteId = 0, maxIncomingPayload = 0, maxRemotePayload = 0,
                 remoteWin = 0, myWindow = of_nat channelWindowSize, pending = [],
                 direction = d, msg = [], packetBuf = []\<rparr>"
  have b: "chans (snd (newChannel d s)) = store_chan ?x cs'"
    using a by (simp add: newChannel_def Let_def)
  from chanList_add_changes [OF a] show ?thesis
  proof
    assume "length (chans s) < length cs'"
    then show ?thesis by (simp add: b store_chan_length)
  next
    assume "length cs' = length (chans s) \<and>
      (\<exists>j<length (chans s). chans s ! j = None \<and> cs' ! j \<noteq> None)"
    then obtain j where j: "length cs' = length (chans s)" "j < length cs'"
      "chans s ! j = None" "cs' ! j \<noteq> None" by auto
    from store_chan_keeps_Some [OF j(2) j(4)] have "store_chan ?x cs' ! j \<noteq> None" .
    with j show ?thesis by (auto simp: b store_chan_length)
  qed
qed

lemma select_open_early: "n < openTimeout \<Longrightarrow> select_open (ready_at n) tie = inbox_received"
  by (simp add: select_open_def)

lemma select_open_late:
  "acc = never \<or> (\<exists>n. acc = ready_at n \<and> openTimeout < n) \<Longrightarrow>
   select_open acc tie = timer_fired"
  by (auto simp: select_open_def)

lemma handleOpen_reject:
  "unat (MaxPacketSize m) < 9 \<or> 2 ^ 31 < unat (MaxPacketSize m) \<Longrightarrow>
   handleOpen acc tie res m s =
     (res, s\<lparr>trace := trace s @ [Encode (OpenFailureMessage (SenderID m))]\<rparr>)"
  by (simp add: handleOpen_def enc_Encode_def minPacketLength_def maxPacketLength_def)

lemma handleOpen_valid_chans:
  "9 \<le> unat (MaxPacketSize m) \<Longrightarrow> unat (MaxPacketSize m) \<le> 2 ^ 31 \<Longrightarrow>
   chans (snd (handleOpen acc tie res m s)) =
     store_chan
       ((fst (newChannel channelInbound s))
          \<lparr>remoteId := SenderID m,
           maxRemotePayload := MaxPacketSize m,
           remoteWin := window_add (remoteWin (fst (newChannel channelInbound s))) (WindowSize m),
           maxIncomingPayload := of_nat channelMaxPacket\<rparr>)
       (chans (snd (newChannel channelInbound s)))"
  by (cases "select_open acc tie")
    (simp_all add: handleOpen_def enc_Encode_def minPacketLength_def maxPacketLength_def
      Let_def case_prod_beta)

lemma handleOpen_creates:
  assumes "9 \<le> unat (MaxPacketSize m)" "unat (MaxPacketSize m) \<le> 2 ^ 31"
  shows "chans (snd (handleOpen acc tie res m s)) \<noteq> chans s"
proof -
  let ?cs = "chans (snd (newChannel channelInbound s))"
  from newChannel_changes [of s channelInbound]
  show ?thesis
  proof
    assume "length (chans s) < length ?cs"
    then show ?thesis
      using handleOpen_valid_chans [OF assms, of acc tie res s]
      by (metis store_chan_length less_irrefl)
  next
    assume "length ?cs = length (chans s) \<and>
      (\<exists>j < length (chans s). chans s ! j = None \<and> ?cs ! j \<noteq> None)"
    then obtain j where j: "j < length ?cs" "chans s ! j = None" "?cs ! j \<noteq> None" by auto
    from store_chan_keeps_Some [OF j(1) j(3)] j(2) show ?thesis
      using handleOpen_valid_chans [OF assms, of acc tie res s] by metis
  qed
qed

lemma handleOpen_timer:
  "9 \<le> unat (MaxPacketSize m) \<Longrightarrow> unat (MaxPacketSize m) \<le> 2 ^ 31 \<Longrightarrow>
   select_open acc tie = timer_fired \<Longrightarrow>
   fst (handleOpen acc tie res m s) = res \<and>
   trace (snd (handleOpen acc tie res m s)) =
     trace s @ [Encode (OpenFailureMessage (SenderID m))]"
  by (simp add: handleOpen_def enc_Encode_def minPacketLength_def maxPacketLength_def Let_def
      newChannel_trace case_prod_beta)

lemma handleOpen_inbox:
  "9 \<le> unat (MaxPacketSize m) \<Longrightarrow> unat (MaxPacketSize m) \<le> 2 ^ 31 \<Longrightarrow>
   select_open acc tie = inbox_received \<Longrightarrow>
   fst (handleOpen acc tie res m s) = res \<and>
   trace (snd (handleOpen acc tie res m s)) =
     trace s @
     [InboxSend (localId (fst (newChannel channelInbound s))),
      Encode (OpenConfirmMessage (SenderID m) (localId (fst (newChannel channelInbound s)))
         (of_nat channelWindowSize) (of_nat channelMaxPacket))]"
  by (simp add: handleOpen_def enc_Encode_def minPacketLength_def maxPacketLength_def Let_def
      newChannel_trace newChannel_myWindow case_prod_beta)

text \<open>
  Claim C1, as the code has it. An inbound \<open>Open\<close> whose \<open>max_packet_size\<close> is less
  than 9 or greater than \<open>2^31\<close> is answered with \<open>OpenFailure\<close> carrying the
  sender's id, and the session is otherwise unchanged: no channel is created. An
  \<open>Open\<close> whose \<open>max_packet_size\<close> lies in \<open>[9, 2^31]\<close>, the value \<open>2^31\<close>
  included, passes the check: a channel enters the table, and when \<open>Accept\<close> takes it
  from the inbox the session answers \<open>OpenConfirm\<close>.
\<close>

theorem handleOpen_max_packet_size_range:
  "(unat (MaxPacketSize m) < 9 \<or> 2 ^ 31 < unat (MaxPacketSize m) \<longrightarrow>
      handleOpen acc tie res m s =
        (res, s\<lparr>trace := trace s @ [Encode (OpenFailureMessage (SenderID m))]\<rparr>)) \<and>
   (9 \<le> unat (MaxPacketSize m) \<and> unat (MaxPacketSize m) \<le> 2 ^ 31 \<longrightarrow>
      chans (snd (handleOpen acc tie res m s)) \<noteq> chans s \<and>
      (select_open acc tie = inbox_received \<longrightarrow>
         trace (snd (handleOpen acc tie res m s)) =
           trace s @
           [InboxSend (localId (fst (newChannel channelInbound s))),
            Encode (OpenConfirmMessage (SenderID m)
              (localId (fst (newChannel channelInbound s)))
              (of_nat channelWindowSize) (of_nat channelMaxPacket))]))"
  using handleOpen_reject [of m acc tie res s] handleOpen_creates [of m acc tie res s]
    handleOpen_inbox [of m acc tie res s]
  by blast

text \<open>
  The bounds 8 and 9 of claim C1, on the session \<open>New\<close> returns, with a goroutine
  ready in \<open>Accept\<close> from the start.
\<close>

theorem handleOpen_max_packet_size_range_witness:
  "unat (MaxPacketSize (OpenMessage 7 1024 8)) < 9 \<and>
   handleOpen (ready_at 0) True None (OpenMessage 7 1024 8)
     (new_session (Transport 0)) =
     (None, \<lparr>t_rwc = Transport 0, t_closed = False, chans = [], err = None, closeCh = [],
             trace = [Encode (OpenFailureMessage 7)]\<rparr>) \<and>
   9 \<le> unat (MaxPacketSize (OpenMessage 7 1024 9)) \<and>
   unat (MaxPacketSize (OpenMessage 7 1024 9)) \<le> 2 ^ 31 \<and>
   select_open (ready_at 0) True = inbox_received \<and>
   chans (snd (handleOpen (ready_at 0) True None (OpenMessage 7 1024 9)
     (new_session (Transport 0)))) \<noteq> [] \<and>
   trace (snd (handleOpen (ready_at 0) True None (OpenMessage 7 1024 9)
     (new_session (Transport 0)))) =
     [InboxSend 0, Encode (OpenConfirmMessage 7 0 1073741824 16777216)]"
  using handleOpen_max_packet_size_range [where m = "OpenMessage 7 1024 8"
      and acc = "ready_at 0" and tie = True and res = None
      and s = "new_session (Transport 0)"]
    handleOpen_max_packet_size_range [where m = "OpenMessage 7 1024 9"
      and acc = "ready_at 0" and tie = True and res = None
      and s = "new_session (Transport 0)"]
  by (simp add: new_session_def newChannel_def chanList_add_def store_chan_def channelWindowSize_def
      channelMaxPacket_def Let_def select_open_def openTimeout_def)

text \<open>
  Claim C1 as stated fails at \<open>max_packet_size = 2^31\<close>: the comparison is
  \<open>msg.MaxPacketSize > maxPacketLength\<close>, so the frame is not rejected; the channel is
  created, handed to \<open>Accept\<close> and confirmed.
\<close>

theorem handleOpen_accepts_two_pow_31:
  "unat (MaxPacketSize (OpenMessage 7 1024 2147483648)) = 2 ^ 31 \<and>
   handleOpen (ready_at 0) True None (OpenMessage 7 1024 2147483648)
     (new_session (Transport 0)) =
   (None,
    \<lparr>t_rwc = Transport 0, t_closed = False,
       chans = [Some \<lparr>localId = 0, remoteId = 7, maxIncomingPayload = 16777216,
                       maxRemotePayload = 2147483648, remoteWin = 1024,
                       myWindow = 1073741824, pending = [], direction = channelInbound,
                       msg = [], packetBuf = []\<rparr>],
       err = None, closeCh = [],
       trace = [InboxSend 0, Encode (OpenConfirmMessage 7 0 1073741824 16777216)]\<rparr>)"
  by (simp add: new_session_def handleOpen_def enc_Encode_def minPacketLength_def maxPacketLength_def Let_def
      newChannel_def chanList_add_def store_chan_def channelWindowSize_def channelMaxPacket_def window_add_def
      select_open_def openTimeout_def)

text \<open>
  Claim C2, as the code has it. For an inbound channel created from a valid \<open>Open\<close>
  frame, when no goroutine is ready in \<open>Accept\<close> within the 30 seconds of
  \<open>openTimeout\<close> (none ever is, or the first is ready later), the timer fires and
  \<open>handleOpen\<close> returns what the encoder answers and does one thing to the peer and
  the inbox: it encodes \<open>OpenFailure\<close> with the sender's id. No \<open>OpenConfirm\<close> is
  encoded and the channel is not handed to \<open>Accept\<close>.
\<close>

theorem handleOpen_timeout_sends_OpenFailure:
  assumes "9 \<le> unat (MaxPacketSize m)" and "unat (MaxPacketSize m) \<le> 2 ^ 31"
    and "acc = never \<or> (\<exists>n. acc = ready_at n \<and> 30 * 1000000000 < n)"
  shows "fst (handleOpen acc tie res m s) = res \<and>
     trace (snd (handleOpen acc tie res m s)) =
       trace s @ [Encode (OpenFailureMessage (SenderID m))]"
proof -
  from assms(3) have "acc = never \<or> (\<exists>n. acc = ready_at n \<and> openTimeout < n)"
    by (simp add: openTimeout_def)
  then have "select_open acc tie = timer_fired"
    by (rule select_open_late)
  with assms(1,2) show ?thesis
    by (rule handleOpen_timer)
qed

text \<open>
  Claim C2 at an \<open>Open\<close> frame with \<open>max_packet_size = 4096\<close>, with no goroutine
  ever in \<open>Accept\<close>, and with one that comes after 31 seconds.
\<close>

theorem handleOpen_timeout_sends_OpenFailure_witness:
  "9 \<le> unat (MaxPacketSize (OpenMessage 7 1024 4096)) \<and>
   unat (MaxPacketSize (OpenMessage 7 1024 4096)) \<le> 2 ^ 31 \<and>
   (30 * 1000000000 :: nat) < 31000000000 \<and>
   fst (handleOpen never True None (OpenMessage 7 1024 4096)
     (new_session (Transport 0))) = None \<and>
   trace (snd (handleOpen never True None (OpenMessage 7 1024 4096)
     (new_session (Transport 0)))) =
     [Encode (OpenFailureMessage 7)] \<and>
   trace (snd (handleOpen (ready_at 31000000000) True None (OpenMessage 7 1024 4096)
     (new_session (Transport 0)))) =
     [Encode (OpenFailureMessage 7)]"
  using handleOpen_timeout_sends_OpenFailure [where m = "OpenMessage 7 1024 4096"
      and acc = never and tie = True and res = None
      and s = "new_session (Transport 0)"]
    handleOpen_timeout_sends_OpenFailure [where m = "OpenMessage 7 1024 4096"
      and acc = "ready_at 31000000000" and tie = True and res = None
      and s = "new_session (Transport 0)"]
  by (simp add: new_session_def)

text \<open>
  Claim C2 as stated fails: after the timeout the channel that \<open>newChannel\<close> added is
  still in the channel table, under its local id.
\<close>

theorem handleOpen_timeout_keeps_channel:
  "handleOpen never True None (OpenMessage 7 1024 4096)
     (new_session (Transport 0)) =
   (None,
    \<lparr>t_rwc = Transport 0, t_closed = False,
       chans = [Some \<lparr>localId = 0, remoteId = 7, maxIncomingPayload = 16777216,
                       maxRemotePayload = 4096, remoteWin = 1024,
                       myWindow = 1073741824, pending = [], direction = channelInbound,
                       msg = [], packetBuf = []\<rparr>],
       err = None, closeCh = [],
       trace = [Encode (OpenFailureMessage 7)]\<rparr>) \<and>
   getChan 0 (chans (snd (handleOpen never True None (OpenMessage 7 1024 4096)
     (new_session (Transport 0))))) =
   Some \<lparr>localId = 0, remoteId = 7, maxIncomingPayload = 16777216,
         maxRemotePayload = 4096, remoteWin = 1024,
         myWindow = 1073741824, pending = [], direction = channelInbound,
         msg = [], packetBuf = []\<rparr>"
  by (simp add: new_session_def handleOpen_def enc_Encode_def minPacketLength_def maxPacketLength_def Let_def
      newChannel_def chanList_add_def store_chan_def channelWindowSize_def channelMaxPacket_def window_add_def
      getChan_def select_open_def)

subsection \<open>\<open>Open\<close>\<close>

lemma Open_encodes:
  "trace (snd (Open res w s)) =
     trace s @ [Encode (OpenMessage (localId (fst (newChannel channelOutbound s)))
                  (of_nat channelWindowSize) (of_nat channelMaxPacket))]"
  by (simp add: Open_def Let_def case_prod_beta enc_Encode_def newChannel_trace newChannel_myWindow
      split: option.splits open_wait.splits Message.splits)

text \<open>
  Claim C6. A call of \<open>Open\<close> whose \<open>Open\<close> frame the encoder took: when the
  peer's answer on \<open>ch.msg\<close> is \<open>OpenConfirm\<close>, \<open>Open\<close> returns the channel it
  created and no error; when it is \<open>OpenFailure\<close>, the error "qmux: channel open
  failed on remote side"; when the message is nil, \<open>net.ErrClosed\<close>; and when the
  context is done first, the context's own error. (When the encoder fails, \<open>Open\<close>
  returns that error.) In every case the frame encoded is the \<open>Open\<close> frame of the new
  channel.
\<close>

theorem Open_results:
  "fst (Open None (msg_received (Some (OpenConfirmMessage cid sid ws mps))) s) =
     Inr ((fst (newChannel channelOutbound s))\<lparr>maxIncomingPayload := of_nat channelMaxPacket\<rparr>) \<and>
   fst (Open None (msg_received (Some (OpenFailureMessage cid))) s) =
     Inl (Errorf ''qmux: channel open failed on remote side'') \<and>
   fst (Open None (msg_received None) s) = Inl ErrClosed \<and>
   fst (Open None (ctx_Done e) s) = Inl e \<and>
   fst (Open (Some e) w s) = Inl e \<and>
   trace (snd (Open res w s)) =
     trace s @ [Encode (OpenMessage (localId (fst (newChannel channelOutbound s)))
                  (of_nat channelWindowSize) (of_nat channelMaxPacket))]"
  by (simp add: Open_encodes) (simp add: Open_def Let_def case_prod_beta enc_Encode_def)

text \<open>
  Claim C6 on the session \<open>New\<close> returns: the channel returned, the table and the
  frame encoded, and the errors for \<open>OpenFailure\<close> and for a cancelled context.
\<close>

theorem Open_results_witness:
  "Open None (msg_received (Some (OpenConfirmMessage 0 3 1024 4096)))
     (new_session (Transport 0)) =
   (Inr \<lparr>localId = 0, remoteId = 0, maxIncomingPayload = 16777216, maxRemotePayload = 0,
         remoteWin = 0, myWindow = 1073741824, pending = [], direction = channelOutbound,
         msg = [], packetBuf = []\<rparr>,
    \<lparr>t_rwc = Transport 0, t_closed = False,
       chans = [Some \<lparr>localId = 0, remoteId = 0, maxIncomingPayload = 16777216,
                       maxRemotePayload = 0, remoteWin = 0, myWindow = 1073741824, pending = [],
                       direction = channelOutbound, msg = [], packetBuf = []\<rparr>],
       err = None, closeCh = [],
       trace = [Encode (OpenMessage 0 1073741824 16777216)]\<rparr>) \<and>
   fst (Open None (msg_received (Some (OpenFailureMessage 0)))
     (new_session (Transport 0))) =
     Inl (Errorf ''qmux: channel open failed on remote side'') \<and>
   fst (Open None (ctx_Done (ContextError ''context canceled''))
     (new_session (Transport 0))) =
     Inl (ContextError ''context canceled'')"
  using Open_results [where s = "new_session (Transport 0)" and cid = 0 and sid = 3
      and ws = 1024 and mps = 4096
      and e = "ContextError ''context canceled''" and res = None
      and w = "msg_received (Some (OpenConfirmMessage 0 3 1024 4096))"]
  by (simp add: new_session_def Open_def enc_Encode_def Let_def newChannel_def chanList_add_def store_chan_def
      channelWindowSize_def channelMaxPacket_def window_add_def)

subsection \<open>\<open>New\<close>\<close>

text \<open>
  Claim C9. \<open>New\<close> of a nil transport returns nil and starts no goroutine (the
  function has no other effect, and no panic); \<open>New\<close> of any other transport returns
  a session and starts its read loop.
\<close>

theorem New_nil_transport:
  "New None = (None, []) \<and>
   New (Some rwc) =
     (Some \<lparr>t_rwc = rwc, t_closed = False, chans = [], err = None, closeCh = [], trace = []\<rparr>,
      [go_loop])"
  by (simp add: New_def new_session_def)

text \<open>
  Claim C9 at the transport \<open>Transport 1\<close>.
\<close>

theorem New_nil_transport_witness:
  "New None = (None, []) \<and>
   New (Some (Transport 1)) =
     (Some \<lparr>t_rwc = Transport 1, t_closed = False, chans = [], err = None, closeCh = [],
            trace = []\<rparr>, [go_loop])"
  using New_nil_transport [of "Transport 1"] by simp

subsection \<open>The read loop and its shutdown\<close>

lemma fold_channel_close:
  "fold channel_close xs s = s\<lparr>trace := trace s @ map (\<lambda>x. ChannelClose (localId x)) xs\<rparr>"
  by (induction xs arbitrary: s) (simp_all add: channel_close_def)

lemma loop_shutdown_ok:
  assumes "closeCh s = []"
  shows "loop_shutdown e s =
     Some (s\<lparr>t_closed := True, chans := [], err := Some e, closeCh := [True],
             trace := trace s @ map (\<lambda>x. ChannelClose (localId x)) (List.map_filter (\<lambda>x. x) (chans s)) @
                      [TransportClose, CloseChSend, ErrStore e]\<rparr>)"
  using assms
  by (simp add: loop_shutdown_def dropAll_def fold_channel_close t_Close_def closeCh_send_def
      store_err_def)

lemma handleOpen_closeCh: "closeCh (snd (handleOpen acc tie res m s)) = closeCh s"
  by (cases "select_open acc tie")
    (simp_all add: handleOpen_def enc_Encode_def newChannel_def Let_def case_prod_beta)

lemma onePacket_closeCh:
  assumes "\<forall>m x s. closeCh (snd (h m x s)) = closeCh s"
  shows "closeCh (snd (onePacket h p s)) = closeCh s"
  using assms
  by (simp add: onePacket_def handleOpen_closeCh case_prod_beta Let_def
      split: sum.splits option.splits)

lemma loop_packets_closeCh:
  assumes "\<forall>m x s. closeCh (snd (h m x s)) = closeCh s"
  shows "loop_packets h ps s = Some (e, s1) \<Longrightarrow> closeCh s1 = closeCh s"
proof (induction ps arbitrary: s)
  case Nil
  then show ?case by simp
next
  case (Cons p ps)
  obtain r s' where o: "onePacket h p s = (r, s')" by (cases "onePacket h p s")
  from onePacket_closeCh [OF assms, of p s] o have c: "closeCh s' = closeCh s" by simp
  show ?case
  proof (cases r)
    case None
    with Cons.prems o have "loop_packets h ps s' = Some (e, s1)" by simp
    from Cons.IH [OF this] c show ?thesis by simp
  next
    case (Some e')
    with Cons.prems o have "s1 = s'" by simp
    with c show ?thesis by simp
  qed
qed

text \<open>
  The loop ends as soon as the decoder returns an error.
\<close>

lemma loop_packets_decode_error:
  "decoded p = Inl e \<Longrightarrow> loop_packets h (p # ps) s = Some (e, s)"
  by (simp add: onePacket_def)

text \<open>
  Claim C7, as the code has it. When the \<open>for\<close> of the read loop ends with the
  error \<open>e\<close> in the state \<open>s1\<close> (on a session whose \<open>closeCh\<close> is empty, as
  \<open>New\<close> makes it, and with a \<open>handle\<close> that leaves \<open>closeCh\<close> alone),
  \<open>loop\<close> returns and has done, in this order and after whatever it did before: the
  close routine of every channel that was in the table (the table is then empty),
  \<open>Close\<close> on the transport, the send of one value on \<open>closeCh\<close>, the store of
  \<open>e\<close>. In the state it leaves, the next \<open>Accept\<close> with no channel offered on
  the inbox (one that was blocked, or the first one called afterwards) receives that
  value, which leaves \<open>closeCh\<close> empty, and returns \<open>io.EOF\<close>; and \<open>Wait\<close>
  returns \<open>e\<close>.
\<close>

theorem loop_shutdown_sequence:
  assumes "loop_packets h ps s = Some (e, s1)"
    and "closeCh s = []"
    and "\<forall>m x s. closeCh (snd (h m x s)) = closeCh s"
  shows "\<exists>s2. loop h ps s = Some s2 \<and>
     chans s2 = [] \<and> t_closed s2 \<and> closeCh s2 = [True] \<and> err s2 = Some e \<and>
     trace s2 = trace s1 @
       map (\<lambda>x. ChannelClose (localId x)) (List.map_filter (\<lambda>x. x) (chans s1)) @
       [TransportClose, CloseChSend, ErrStore e] \<and>
     Accept None pick s2 = Some (Inl EOF, s2\<lparr>closeCh := []\<rparr>) \<and>
     Wait s2 = Some e"
proof -
  from loop_packets_closeCh [OF assms(3) assms(1)] assms(2) have "closeCh s1 = []" by simp
  with assms(1) show ?thesis
    by (simp add: loop_def loop_shutdown_ok Accept_def Wait_def)
qed

text \<open>
  Claim C7 on a run from the session \<open>New\<close> returns: an \<open>Open\<close> frame that is
  accepted and confirmed, then a read error.
\<close>

theorem loop_shutdown_sequence_witness:
  "loop_packets (\<lambda>m x s. (None, s))
     [\<lparr>decoded = Inr (OpenMessage 7 1024 4096), accepting = ready_at 0, tied = True,
       encoded = None\<rparr>,
      \<lparr>decoded = Inl (IOError ''connection reset''), accepting = never, tied = True,
       encoded = None\<rparr>]
     (new_session (Transport 0)) =
   Some (IOError ''connection reset'',
     \<lparr>t_rwc = Transport 0, t_closed = False,
       chans = [Some \<lparr>localId = 0, remoteId = 7, maxIncomingPayload = 16777216,
                       maxRemotePayload = 4096, remoteWin = 1024,
                       myWindow = 1073741824, pending = [], direction = channelInbound,
                       msg = [], packetBuf = []\<rparr>],
       err = None, closeCh = [],
       trace = [InboxSend 0, Encode (OpenConfirmMessage 7 0 1073741824 16777216)]\<rparr>) \<and>
   closeCh (new_session (Transport 0)) = [] \<and>
   (\<forall>m x s. closeCh (snd ((\<lambda>m x s. (None :: error option, s :: session))
      (m :: Message) (x :: channel) s)) = closeCh s) \<and>
   (\<exists>s2. loop (\<lambda>m x s. (None, s))
     [\<lparr>decoded = Inr (OpenMessage 7 1024 4096), accepting = ready_at 0, tied = True,
       encoded = None\<rparr>,
      \<lparr>decoded = Inl (IOError ''connection reset''), accepting = never, tied = True,
       encoded = None\<rparr>]
     (new_session (Transport 0)) =
     Some s2 \<and>
     chans s2 = [] \<and> t_closed s2 \<and> closeCh s2 = [True] \<and>
     err s2 = Some (IOError ''connection reset'') \<and>
     trace s2 = [InboxSend 0, Encode (OpenConfirmMessage 7 0 1073741824 16777216),
                ChannelClose 0, TransportClose, CloseChSend,
                ErrStore (IOError ''connection reset'')] \<and>
     Accept None True s2 = Some (Inl EOF, s2\<lparr>closeCh := []\<rparr>) \<and>
     Wait s2 = Some (IOError ''connection reset''))"
proof -
  have run: "loop_packets (\<lambda>m x s. (None, s))
     [\<lparr>decoded = Inr (OpenMessage 7 1024 4096), accepting = ready_at 0, tied = True,
       encoded = None\<rparr>,
      \<lparr>decoded = Inl (IOError ''connection reset''), accepting = never, tied = True,
       encoded = None\<rparr>]
     (new_session (Transport 0)) =
   Some (IOError ''connection reset'',
     \<lparr>t_rwc = Transport 0, t_closed = False,
       chans = [Some \<lparr>localId = 0, remoteId = 7, maxIncomingPayload = 16777216,
                       maxRemotePayload = 4096, remoteWin = 1024,
                       myWindow = 1073741824, pending = [], direction = channelInbound,
                       msg = [], packetBuf = []\<rparr>],
       err = None, closeCh = [],
       trace = [InboxSend 0, Encode (OpenConfirmMessage 7 0 1073741824 16777216)]\<rparr>)"
    by (simp add: new_session_def onePacket_def handleOpen_def enc_Encode_def minPacketLength_def
        maxPacketLength_def Let_def newChannel_def chanList_add_def store_chan_def
        channelWindowSize_def channelMaxPacket_def window_add_def select_open_def openTimeout_def)
  have empty: "closeCh (new_session (Transport 0)) = []"
    by (simp add: new_session_def)
  have h: "\<forall>m x s. closeCh (snd ((\<lambda>m x s. (None :: error option, s :: session))
      (m :: Message) (x :: channel) s)) = closeCh s"
    by (simp add: new_session_def)
  have "\<exists>s2. loop (\<lambda>m x s. (None, s))
     [\<lparr>decoded = Inr (OpenMessage 7 1024 4096), accepting = ready_at 0, tied = True,
       encoded = None\<rparr>,
      \<lparr>decoded = Inl (IOError ''connection reset''), accepting = never, tied = True,
       encoded = None\<rparr>]
     (new_session (Transport 0)) =
     Some s2 \<and>
     chans s2 = [] \<and> t_closed s2 \<and> closeCh s2 = [True] \<and>
     err s2 = Some (IOError ''connection reset'') \<and>
     trace s2 = [InboxSend 0, Encode (OpenConfirmMessage 7 0 1073741824 16777216),
                ChannelClose 0, TransportClose, CloseChSend,
                ErrStore (IOError ''connection reset'')] \<and>
     Accept None True s2 = Some (Inl EOF, s2\<lparr>closeCh := []\<rparr>) \<and>
     Wait s2 = Some (IOError ''connection reset'')"
    using loop_shutdown_sequence [OF run empty h, of True] by (simp add: new_session_def List.map_filter_simps)
  with run empty h show ?thesis by blast
qed

text \<open>
  Claim C7 as stated fails for an \<open>Accept\<close> after the first: \<open>closeCh\<close> has room
  for one value, \<open>loop\<close> sends on it once and nothing closes it. On a session whose
  read loop ended with a read error, the first \<open>Accept\<close> returns \<open>io.EOF\<close> and the
  one after it finds no case ready and blocks.
\<close>

theorem loop_shutdown_second_Accept_blocks:
  "loop (\<lambda>m x s. (None, s))
     [\<lparr>decoded = Inl (IOError ''connection reset''), accepting = never, tied = True,
       encoded = None\<rparr>]
     (new_session (Transport 0)) =
   Some \<lparr>t_rwc = Transport 0, t_closed = True, chans = [],
          err = Some (IOError ''connection reset''), closeCh = [True],
          trace = [TransportClose, CloseChSend, ErrStore (IOError ''connection reset'')]\<rparr> \<and>
   Accept None True
     \<lparr>t_rwc = Transport 0, t_closed = True, chans = [],
      err = Some (IOError ''connection reset''), closeCh = [True],
      trace = [TransportClose, CloseChSend, ErrStore (IOError ''connection reset'')]\<rparr> =
   Some (Inl EOF,
     \<lparr>t_rwc = Transport 0, t_closed = True, chans = [],
      err = Some (IOError ''connection reset''), closeCh = [],
      trace = [TransportClose, CloseChSend, ErrStore (IOError ''connection reset'')]\<rparr>) \<and>
   Accept None True
     \<lparr>t_rwc = Transport 0, t_closed = True, chans = [],
      err = Some (IOError ''connection reset''), closeCh = [],
      trace = [TransportClose, CloseChSend, ErrStore (IOError ''connection reset'')]\<rparr> =
   None"
  by (simp add: loop_def onePacket_def loop_shutdown_def dropAll_def List.map_filter_simps
      t_Close_def closeCh_send_def store_err_def new_session_def Accept_def)

text \<open>
  The same in any state: the \<open>Accept\<close> that receives the value takes it out, and a
  later \<open>Accept\<close> with no channel offered on the inbox finds no case ready.
\<close>

lemma Accept_after_EOF_blocks:
  "closeCh s = [b] \<Longrightarrow>
   Accept None pick s = Some (Inl EOF, s\<lparr>closeCh := []\<rparr>) \<and>
   Accept None pick (s\<lparr>closeCh := []\<rparr>) = None"
  by (simp add: Accept_def)

section \<open>The RPC layer: properties\<close>

subsection \<open>The responder\<close>

lemma responder_Send_ok:
  "c r v (ch r) = None \<Longrightarrow>
   responder_Send v r = (None, r\<lparr>ch := (ch r)\<lparr>events := events (ch r) @ [Encoded v]\<rparr>\<rparr>)"
  by (simp add: responder_Send_def)

lemma send_values_ok:
  "\<forall>v x. c r v x = None \<Longrightarrow>
   send_values vs r =
     (None, r\<lparr>ch := (ch r)\<lparr>events := events (ch r) @ map (\<lambda>v. Encoded (Val v)) vs\<rparr>\<rparr>)"
proof (induction vs arbitrary: r)
  case Nil
  then show ?case by simp
next
  case (Cons a vs)
  let ?r1 = "r\<lparr>ch := (ch r)\<lparr>events := events (ch r) @ [Encoded (Val a)]\<rparr>\<rparr>"
  from Cons.prems have s: "responder_Send (Val a) r = (None, ?r1)"
    by (simp add: responder_Send_ok)
  from Cons.prems have "\<forall>v x. c ?r1 v x = None" by simp
  from Cons.IH [OF this] s show ?case by simp
qed

text \<open>respond when no encode fails, for a given header and list of vals after substitution\<close>

lemma respond_ok_general:
  assumes ok: "\<forall>v x. c r v x = None"
  shows "responder_respond cl vals k r =
     (let h = (case vals of [ErrorValue m] \<Rightarrow> (header r)\<lparr>Continue := k, Error := Some m\<rparr>
                | _ \<Rightarrow> (header r)\<lparr>Continue := k\<rparr>);
          vs = (case vals of [] \<Rightarrow> [nil] | [ErrorValue m] \<Rightarrow> [nil] | _ \<Rightarrow> vals);
          x = (ch r)\<lparr>events := events (ch r) @ Encoded (Header h) # map (\<lambda>v. Encoded (Val v)) vs\<rparr>
      in if k then (None, r\<lparr>responded := True, header := h, ch := x\<rparr>)
         else (cl x, r\<lparr>responded := True, header := h, ch := x\<lparr>events := events x @ [Closed]\<rparr>\<rparr>))"
  using ok
  by (simp add: responder_respond_def Let_def responder_Send_ok send_values_ok mux_Close_def
      split: list.splits any.splits)

lemma header_both: "(h::ResponseHeader)\<lparr>Continue := k, Error := Some m\<rparr> = \<lparr>Error = Some m, Continue = k\<rparr>"
  by (cases h) simp

text \<open>
  Claim C3. \<open>Return\<close> and \<open>Continue\<close> are \<open>respond\<close> with the flag false and
  true. With a codec that encodes every value: when the one value passed is an error
  with text \<open>m\<close>, what goes out after the header is the single value nil, and the
  header's error field is \<open>m\<close>; when no value is passed, the single value nil goes
  out; and whatever is passed, the header is followed by at least one framed value.
\<close>

theorem respond_error_in_return:
  assumes ok: "\<forall>v x. c r v x = None"
  shows
    "responder_Return cl vals r = responder_respond cl vals False r \<and>
     snd (responder_Continue cl vals r) = snd (responder_respond cl vals True r) \<and>
     events (ch (snd (responder_respond cl [ErrorValue m] True r))) =
       events (ch r) @ [Encoded (Header \<lparr>Error = Some m, Continue = True\<rparr>), Encoded (Val nil)] \<and>
     events (ch (snd (responder_respond cl [ErrorValue m] False r))) =
       events (ch r) @
       [Encoded (Header \<lparr>Error = Some m, Continue = False\<rparr>), Encoded (Val nil), Closed] \<and>
     header (snd (responder_respond cl [ErrorValue m] k r)) = \<lparr>Error = Some m, Continue = k\<rparr> \<and>
     events (ch (snd (responder_respond cl [] True r))) =
       events (ch r) @ [Encoded (Header ((header r)\<lparr>Continue := True\<rparr>)), Encoded (Val nil)] \<and>
     events (ch (snd (responder_respond cl [] False r))) =
       events (ch r) @
       [Encoded (Header ((header r)\<lparr>Continue := False\<rparr>)), Encoded (Val nil), Closed] \<and>
     (\<exists>h v rest. events (ch (snd (responder_respond cl vals k r))) =
        events (ch r) @ Encoded (Header h) # Encoded (Val v) # rest)"
proof -
  have a: "responder_Return cl vals r = responder_respond cl vals False r"
    by (simp add: responder_Return_def)
  have b: "snd (responder_Continue cl vals r) = snd (responder_respond cl vals True r)"
    by (simp add: responder_Continue_def case_prod_beta)
  have c1: "events (ch (snd (responder_respond cl [ErrorValue m] True r))) =
       events (ch r) @ [Encoded (Header \<lparr>Error = Some m, Continue = True\<rparr>), Encoded (Val nil)]"
    by (simp add: respond_ok_general [OF ok] header_both Let_def)
  have c2: "events (ch (snd (responder_respond cl [ErrorValue m] False r))) =
       events (ch r) @
       [Encoded (Header \<lparr>Error = Some m, Continue = False\<rparr>), Encoded (Val nil), Closed]"
    by (simp add: respond_ok_general [OF ok] header_both Let_def)
  have d: "header (snd (responder_respond cl [ErrorValue m] k r)) = \<lparr>Error = Some m, Continue = k\<rparr>"
    by (simp add: respond_ok_general [OF ok] header_both Let_def)
  have e1: "events (ch (snd (responder_respond cl [] True r))) =
       events (ch r) @ [Encoded (Header ((header r)\<lparr>Continue := True\<rparr>)), Encoded (Val nil)]"
    by (simp add: respond_ok_general [OF ok] Let_def)
  have e2: "events (ch (snd (responder_respond cl [] False r))) =
       events (ch r) @
       [Encoded (Header ((header r)\<lparr>Continue := False\<rparr>)), Encoded (Val nil), Closed]"
    by (simp add: respond_ok_general [OF ok] Let_def)
  let ?vs = "case vals of [] \<Rightarrow> [nil] | [ErrorValue m] \<Rightarrow> [nil] | _ \<Rightarrow> vals"
  have ne: "?vs \<noteq> []" by (simp split: list.splits any.splits)
  then obtain v vs where vs: "?vs = v # vs" by (cases ?vs) auto
  have f: "\<exists>h v rest. events (ch (snd (responder_respond cl vals k r))) =
        events (ch r) @ Encoded (Header h) # Encoded (Val v) # rest"
    by (cases k) (simp_all add: respond_ok_general [OF ok] Let_def vs)
  from a b c1 c2 d e1 e2 f show ?thesis by blast
qed

text \<open>
  Claim C3 on a fresh responder: \<open>Return(errors.New("boom"))\<close> and
  \<open>Continue()\<close>.
\<close>

theorem respond_error_in_return_witness:
  "(\<forall>v x. c \<lparr>responded = False, header = \<lparr>Error = None, Continue = False\<rparr>,
             ch = \<lparr>events = []\<rparr>, c = (\<lambda>v x. None)\<rparr> v x = None) \<and>
   events (ch (snd (responder_respond (\<lambda>x. None) [ErrorValue ''boom''] False
     \<lparr>responded = False, header = \<lparr>Error = None, Continue = False\<rparr>,
      ch = \<lparr>events = []\<rparr>, c = (\<lambda>v x. None)\<rparr>))) =
     [Encoded (Header \<lparr>Error = Some ''boom'', Continue = False\<rparr>), Encoded (Val nil), Closed] \<and>
   events (ch (snd (responder_respond (\<lambda>x. None) [] True
     \<lparr>responded = False, header = \<lparr>Error = None, Continue = False\<rparr>,
      ch = \<lparr>events = []\<rparr>, c = (\<lambda>v x. None)\<rparr>))) =
     [Encoded (Header \<lparr>Error = None, Continue = True\<rparr>), Encoded (Val nil)]"
  using respond_error_in_return [where r = "\<lparr>responded = False, header = \<lparr>Error = None, Continue = False\<rparr>,
      ch = \<lparr>events = []\<rparr>, c = (\<lambda>v x. None)\<rparr>" and cl = "\<lambda>x. None" and m = "''boom''"
      and k = False and vals = "[]"]
  by simp

subsection \<open>\<open>Return\<close>, \<open>Continue\<close> and the default response\<close>

lemma RespondRPC_sends:
  "\<forall>v x. c r v x = None \<Longrightarrow>
   RespondRPC cl (map call_Send vs) r =
     r\<lparr>ch := (ch r)\<lparr>events := events (ch r) @ map (\<lambda>v. Encoded (Val v)) vs\<rparr>\<rparr>"
proof (induction vs arbitrary: r)
  case Nil
  then show ?case by simp
next
  case (Cons a vs)
  let ?r1 = "r\<lparr>ch := (ch r)\<lparr>events := events (ch r) @ [Encoded (Val a)]\<rparr>\<rparr>"
  from Cons.prems have s: "responder_Send (Val a) r = (None, ?r1)"
    by (simp add: responder_Send_ok)
  from Cons.prems have "\<forall>v x. c ?r1 v x = None" by simp
  from Cons.IH [OF this] s show ?case by simp
qed

lemma Server_respond_no_response:
  assumes okf: "\<forall>v x. framer v x = None"
  shows "Server_respond cl framer None (map call_Send sent) x =
       \<lparr>events = events x @ map (\<lambda>v. Encoded (Val v)) sent @
          [Encoded (Header \<lparr>Error = None, Continue = False\<rparr>), Encoded (Val nil),
           Closed, Closed]\<rparr>"
proof -
  let ?resp = "\<lparr>responded = False, header = \<lparr>Error = None, Continue = False\<rparr>,
                       ch = x, c = framer\<rparr>"
  let ?r1 = "\<lparr>responded = False, header = \<lparr>Error = None, Continue = False\<rparr>,
      ch = x\<lparr>events := events x @ map (\<lambda>v. Encoded (Val v)) sent\<rparr>, c = framer\<rparr>"
  from okf have ok0: "\<forall>v x. c ?resp v x = None" by simp
  have h: "RespondRPC cl (map call_Send sent) ?resp = ?r1"
    using RespondRPC_sends [OF ok0, of cl sent] by simp
  from okf have ok1: "\<forall>v x. c ?r1 v x = None" by simp
  have ret: "responder_respond cl [] False ?r1 =
      (cl (x\<lparr>events := events x @ map (\<lambda>v. Encoded (Val v)) sent @
          [Encoded (Header \<lparr>Error = None, Continue = False\<rparr>), Encoded (Val nil)]\<rparr>),
       \<lparr>responded = True, header = \<lparr>Error = None, Continue = False\<rparr>,
        ch = x\<lparr>events := events x @ map (\<lambda>v. Encoded (Val v)) sent @
          [Encoded (Header \<lparr>Error = None, Continue = False\<rparr>), Encoded (Val nil), Closed]\<rparr>,
        c = framer\<rparr>)"
    using respond_ok_general [OF ok1, of cl "[]" False] by (simp add: Let_def)
  show ?thesis
    by (simp add: Server_respond_def Let_def h responder_Return_def ret mux_Close_def)
qed

lemma Return_ok:
  assumes ok: "\<forall>v x. c r v x = None"
  shows "Continue (header (snd (responder_Return cl vals r))) = False \<and>
     (\<exists>v vs. events (ch (snd (responder_Return cl vals r))) =
        events (ch r) @ Encoded (Header (header (snd (responder_Return cl vals r)))) #
          Encoded (Val v) # map (\<lambda>v. Encoded (Val v)) vs @ [Closed] \<and>
        (vals \<noteq> [] \<and> (\<forall>m. vals \<noteq> [ErrorValue m]) \<longrightarrow> v # vs = vals))"
proof -
  let ?vs = "case vals of [] \<Rightarrow> [nil] | [ErrorValue m] \<Rightarrow> [nil] | _ \<Rightarrow> vals"
  have "?vs \<noteq> []" by (simp split: list.splits any.splits)
  then obtain v vs where vs: "?vs = v # vs" by (cases ?vs) auto
  have keep: "vals \<noteq> [] \<and> (\<forall>m. vals \<noteq> [ErrorValue m]) \<longrightarrow> v # vs = vals"
    using vs by (auto split: list.splits any.splits)
  have "Continue (header (snd (responder_Return cl vals r))) = False"
    by (simp add: responder_Return_def respond_ok_general [OF ok] Let_def
        split: list.splits any.splits)
  moreover have "events (ch (snd (responder_Return cl vals r))) =
        events (ch r) @ Encoded (Header (header (snd (responder_Return cl vals r)))) #
          Encoded (Val v) # map (\<lambda>v. Encoded (Val v)) vs @ [Closed]"
    by (simp add: responder_Return_def respond_ok_general [OF ok] Let_def vs)
  ultimately show ?thesis using keep by blast
qed

lemma Continue_ok:
  assumes ok: "\<forall>v x. c r v x = None"
  shows "Continue (header (snd (responder_Continue cl vals r))) = True \<and>
     fst (responder_Continue cl vals r) = (ch (snd (responder_Continue cl vals r)), None) \<and>
     (\<exists>v vs. events (ch (snd (responder_Continue cl vals r))) =
        events (ch r) @ Encoded (Header (header (snd (responder_Continue cl vals r)))) #
          Encoded (Val v) # map (\<lambda>v. Encoded (Val v)) vs \<and>
        (vals \<noteq> [] \<and> (\<forall>m. vals \<noteq> [ErrorValue m]) \<longrightarrow> v # vs = vals))"
proof -
  let ?vs = "case vals of [] \<Rightarrow> [nil] | [ErrorValue m] \<Rightarrow> [nil] | _ \<Rightarrow> vals"
  have "?vs \<noteq> []" by (simp split: list.splits any.splits)
  then obtain v vs where vs: "?vs = v # vs" by (cases ?vs) auto
  have keep: "vals \<noteq> [] \<and> (\<forall>m. vals \<noteq> [ErrorValue m]) \<longrightarrow> v # vs = vals"
    using vs by (auto split: list.splits any.splits)
  have "Continue (header (snd (responder_Continue cl vals r))) = True"
    by (simp add: responder_Continue_def respond_ok_general [OF ok] Let_def
        split: list.splits any.splits)
  moreover have "fst (responder_Continue cl vals r) =
      (ch (snd (responder_Continue cl vals r)), None)"
    by (simp add: responder_Continue_def respond_ok_general [OF ok] Let_def)
  moreover have "events (ch (snd (responder_Continue cl vals r))) =
        events (ch r) @ Encoded (Header (header (snd (responder_Continue cl vals r)))) #
          Encoded (Val v) # map (\<lambda>v. Encoded (Val v)) vs"
    by (simp add: responder_Continue_def respond_ok_general [OF ok] Let_def vs)
  ultimately show ?thesis using keep by blast
qed

text \<open>
  Claim C4. With a codec that encodes every value: \<open>Return\<close> encodes the header
  with \<open>Continue\<close> false, then the values (the values passed, unless they are none or
  a single error), then closes the channel; \<open>Continue\<close> encodes the header with
  \<open>Continue\<close> true, then the values, does not close the channel and returns it with
  no error; and when the handler has only called \<open>Send\<close> (or nothing),
  \<open>Server.respond\<close> issues \<open>Return()\<close>: the header with no error and
  \<open>Continue\<close> false, the value nil, and the channel closed (by \<open>Return\<close>, and once
  more by \<open>Server.respond\<close>).
\<close>

theorem Return_Continue_default_response:
  assumes ok: "\<forall>v x. c r v x = None" and okf: "\<forall>v x. framer v x = None"
  shows
    "Continue (header (snd (responder_Return cl vals r))) = False \<and>
     (\<exists>v vs. events (ch (snd (responder_Return cl vals r))) =
        events (ch r) @ Encoded (Header (header (snd (responder_Return cl vals r)))) #
          Encoded (Val v) # map (\<lambda>v. Encoded (Val v)) vs @ [Closed] \<and>
        (vals \<noteq> [] \<and> (\<forall>m. vals \<noteq> [ErrorValue m]) \<longrightarrow> v # vs = vals)) \<and>
     Continue (header (snd (responder_Continue cl vals r))) = True \<and>
     fst (responder_Continue cl vals r) = (ch (snd (responder_Continue cl vals r)), None) \<and>
     (\<exists>v vs. events (ch (snd (responder_Continue cl vals r))) =
        events (ch r) @ Encoded (Header (header (snd (responder_Continue cl vals r)))) #
          Encoded (Val v) # map (\<lambda>v. Encoded (Val v)) vs \<and>
        (vals \<noteq> [] \<and> (\<forall>m. vals \<noteq> [ErrorValue m]) \<longrightarrow> v # vs = vals)) \<and>
     Server_respond cl framer None (map call_Send sent) x =
       \<lparr>events = events x @ map (\<lambda>v. Encoded (Val v)) sent @
          [Encoded (Header \<lparr>Error = None, Continue = False\<rparr>), Encoded (Val nil),
           Closed, Closed]\<rparr>"
  using Return_ok [OF ok, of cl vals] Continue_ok [OF ok, of cl vals]
    Server_respond_no_response [OF okf, of cl sent x]
  by blast

text \<open>
  Claim C4 on a fresh responder and an empty channel: \<open>Return("5")\<close>,
  \<open>Continue("5")\<close>, and a handler that calls nothing.
\<close>

theorem Return_Continue_default_response_witness:
  "(\<forall>v x. c \<lparr>responded = False, header = \<lparr>Error = None, Continue = False\<rparr>,
             ch = \<lparr>events = []\<rparr>, c = (\<lambda>v x. None)\<rparr> v x = None) \<and>
   (\<forall>v x. (\<lambda>v x. None :: error option) (v :: framed) (x :: mux_Channel) = None) \<and>
   Continue (header (snd (responder_Return (\<lambda>x. None) [Value ''5'']
     \<lparr>responded = False, header = \<lparr>Error = None, Continue = False\<rparr>,
      ch = \<lparr>events = []\<rparr>, c = (\<lambda>v x. None)\<rparr>))) = False \<and>
   Continue (header (snd (responder_Continue (\<lambda>x. None) [Value ''5'']
     \<lparr>responded = False, header = \<lparr>Error = None, Continue = False\<rparr>,
      ch = \<lparr>events = []\<rparr>, c = (\<lambda>v x. None)\<rparr>))) = True \<and>
   Server_respond (\<lambda>x. None) (\<lambda>v x. None) None (map call_Send []) \<lparr>events = []\<rparr> =
     \<lparr>events = [Encoded (Header \<lparr>Error = None, Continue = False\<rparr>), Encoded (Val nil),
                 Closed, Closed]\<rparr>"
  using Return_Continue_default_response [where r = "\<lparr>responded = False, header = \<lparr>Error = None, Continue = False\<rparr>,
      ch = \<lparr>events = []\<rparr>, c = (\<lambda>v x. None)\<rparr>" and cl = "\<lambda>x. None"
      and framer = "\<lambda>v x. None" and vals = "[Value ''5'']" and sent = "[]"
      and x = "\<lparr>events = []\<rparr>"]
  by simp

subsection \<open>\<open>Send\<close> and the responder states\<close>

text \<open>
  Claim C5, as the code has it. \<open>Send\<close> makes no check of the responder's state:
  whatever \<open>responded\<close> and the header are, it returns what the codec's encoder
  answers for the value on the channel, it leaves the state (unresponded, returned or
  continued) as it was, and a value the encoder takes is on the channel. That \<open>Send\<close>
  is for use after \<open>Continue\<close> is a rule for handlers, stated on the interface.
\<close>

theorem Send_makes_no_state_check:
  "fst (responder_Send v (r\<lparr>responded := b, header := h\<rparr>)) = c r v (ch r) \<and>
   state_of (snd (responder_Send v r)) = state_of r \<and>
   (c r v (ch r) = None \<longrightarrow>
      events (ch (snd (responder_Send v r))) = events (ch r) @ [Encoded v])"
  by (simp add: responder_Send_def state_of_def split: option.splits)

text \<open>
  Claim C5 on a responder in the continued state: \<open>Send("a")\<close> after
  \<open>Continue\<close>.
\<close>

theorem Send_makes_no_state_check_witness:
  "c \<lparr>responded = True, header = \<lparr>Error = None, Continue = True\<rparr>,
      ch = \<lparr>events = []\<rparr>, c = (\<lambda>v x. None)\<rparr> (Val (Value ''a''))
     (ch \<lparr>responded = True, header = \<lparr>Error = None, Continue = True\<rparr>,
      ch = \<lparr>events = []\<rparr>, c = (\<lambda>v x. None)\<rparr>) = None \<and>
   state_of \<lparr>responded = True, header = \<lparr>Error = None, Continue = True\<rparr>,
      ch = \<lparr>events = []\<rparr>, c = (\<lambda>v x. None)\<rparr> = continued \<and>
   state_of (snd (responder_Send (Val (Value ''a''))
     \<lparr>responded = True, header = \<lparr>Error = None, Continue = True\<rparr>,
      ch = \<lparr>events = []\<rparr>, c = (\<lambda>v x. None)\<rparr>)) = continued \<and>
   events (ch (snd (responder_Send (Val (Value ''a''))
     \<lparr>responded = True, header = \<lparr>Error = None, Continue = True\<rparr>,
      ch = \<lparr>events = []\<rparr>, c = (\<lambda>v x. None)\<rparr>))) = [Encoded (Val (Value ''a''))]"
  using Send_makes_no_state_check [where r = "\<lparr>responded = True, header = \<lparr>Error = None, Continue = True\<rparr>,
      ch = \<lparr>events = []\<rparr>, c = (\<lambda>v x. None)\<rparr>" and v = "Val (Value ''a'')"
      and b = True and h = "\<lparr>Error = None, Continue = True\<rparr>"]
  by (simp add: state_of_def)

text \<open>
  Claim C5 as stated fails: on an unresponded responder \<open>Send\<close> is carried out, the
  value is encoded on the channel and no error is returned. Under \<open>Server.respond\<close>,
  a handler that calls \<open>Send\<close> and nothing else puts its value on the channel before
  the response header.
\<close>

theorem Send_admitted_when_unresponded:
  "state_of \<lparr>responded = False, header = \<lparr>Error = None, Continue = False\<rparr>,
             ch = \<lparr>events = []\<rparr>, c = (\<lambda>v x. None)\<rparr> = unresponded \<and>
   responder_Send (Val (Value ''early''))
     \<lparr>responded = False, header = \<lparr>Error = None, Continue = False\<rparr>,
      ch = \<lparr>events = []\<rparr>, c = (\<lambda>v x. None)\<rparr> =
   (None, \<lparr>responded = False, header = \<lparr>Error = None, Continue = False\<rparr>,
      ch = \<lparr>events = [Encoded (Val (Value ''early''))]\<rparr>, c = (\<lambda>v x. None)\<rparr>) \<and>
   Server_respond (\<lambda>x. None) (\<lambda>v x. None) None [call_Send (Value ''early'')]
     \<lparr>events = []\<rparr> =
   \<lparr>events = [Encoded (Val (Value ''early'')),
               Encoded (Header \<lparr>Error = None, Continue = False\<rparr>), Encoded (Val nil),
               Closed, Closed]\<rparr>"
  by (simp add: responder_Send_def state_of_def Server_respond_def responder_Return_def
      responder_respond_def mux_Close_def Let_def)

subsection \<open>\<open>Server.Call\<close>\<close>

text \<open>
  Claim C8. A call of \<open>Call\<close> that has opened its channel and whose context is
  cancelled before the call completes: the watcher's \<open>select\<close> receives from
  \<open>ctx.Done()\<close> (\<open>done\<close> is closed only when \<open>Call\<close> returns) and
  \<open>ctx.Err()\<close> is not nil when \<open>call\<close> has returned. Then the watcher calls
  \<open>Close\<close> on the channel, and \<open>Call\<close> returns the response of \<open>call\<close> with
  the context's error, whatever error \<open>call\<close> returned.
\<close>

theorem Call_cancelled:
  assumes "open_result env = Inr x" and "watcher_case env = ctx_Done_received"
    and "ctx_Err env = Some ctxErr"
  shows "Server_Call cl env =
     ((fst (fst (call_fn env x)), Some ctxErr),
      Some ((snd (call_fn env x))\<lparr>events := events (snd (call_fn env x)) @ [Closed]\<rparr>))"
  using assms
  by (simp add: Server_Call_def watcher_def mux_Close_def case_prod_beta Let_def)

text \<open>
  Claim C8 on a call whose exchange fails with \<open>net.ErrClosed\<close> once the watcher
  has closed the channel: \<open>Call\<close> returns the context's error.
\<close>

theorem Call_cancelled_witness:
  "open_result \<lparr>open_result = Inr \<lparr>events = []\<rparr>, watcher_case = ctx_Done_received,
      call_fn = (\<lambda>x. ((None :: unit option, Some ErrClosed), x)),
      ctx_Err = Some (ContextError ''context canceled'')\<rparr> = Inr \<lparr>events = []\<rparr> \<and>
   Server_Call (\<lambda>x. None)
     \<lparr>open_result = Inr \<lparr>events = []\<rparr>, watcher_case = ctx_Done_received,
      call_fn = (\<lambda>x. ((None :: unit option, Some ErrClosed), x)),
      ctx_Err = Some (ContextError ''context canceled'')\<rparr> =
   ((None, Some (ContextError ''context canceled'')), Some \<lparr>events = [Closed]\<rparr>)"
  using Call_cancelled [where env = "\<lparr>open_result = Inr \<lparr>events = []\<rparr>, watcher_case = ctx_Done_received,
      call_fn = (\<lambda>x. ((None :: unit option, Some ErrClosed), x)),
      ctx_Err = Some (ContextError ''context canceled'')\<rparr>" and x = "\<lparr>events = []\<rparr>"
      and ctxErr = "ContextError ''context canceled''" and cl = "\<lambda>x. None"]
  by simp

subsection \<open>\<open>Server.Respond\<close>\<close>

lemma accept_loop_ended:
  "accept_loop as n acc = Some (out, k, acc') \<Longrightarrow> out = returned \<or> (\<exists>e. out = panic_error e)"
  by (induction as n acc rule: accept_loop.induct) (auto split: if_splits)

text \<open>
  Claim C10. With a nil \<open>Codec\<close>, \<open>Respond\<close> panics with the text
  "rpc.Respond: nil codec" before any call of \<open>Accept\<close>; with a \<open>Codec\<close> that is
  not nil, no run of \<open>Respond\<close> ends with that panic.
\<close>

theorem Respond_nil_codec:
  "(Codec srv = None \<longrightarrow>
      Server_Respond srv accepts =
        Some \<lparr>ended = panic_string ''rpc.Respond: nil codec'', accept_calls = 0,
               started = [], sess_closed = True\<rparr>) \<and>
   (Codec srv \<noteq> None \<longrightarrow>
      (\<forall>res. Server_Respond srv accepts = Some res \<longrightarrow>
         ended res \<noteq> panic_string ''rpc.Respond: nil codec''))"
proof (intro conjI impI allI)
  assume "Codec srv = None"
  then show "Server_Respond srv accepts =
        Some \<lparr>ended = panic_string ''rpc.Respond: nil codec'', accept_calls = 0,
               started = [], sess_closed = True\<rparr>"
    by (simp add: Server_Respond_def)
next
  fix res
  assume a: "Codec srv \<noteq> None" and b: "Server_Respond srv accepts = Some res"
  then obtain out n acc where l: "accept_loop accepts 0 [] = Some (out, n, acc)" and "ended res = out"
    by (auto simp: Server_Respond_def split: option.splits)
  with accept_loop_ended [OF l] show "ended res \<noteq> panic_string ''rpc.Respond: nil codec''"
    by auto
qed

text \<open>
  Claim C10 on a server with no codec, and on a server with a codec whose session
  hands over one channel and then ends.
\<close>

theorem Respond_nil_codec_witness:
  "Codec \<lparr>Handler = None, Codec = None\<rparr> = None \<and>
   Server_Respond \<lparr>Handler = None, Codec = None\<rparr> [Inr \<lparr>events = []\<rparr>] =
     Some \<lparr>ended = panic_string ''rpc.Respond: nil codec'', accept_calls = 0,
            started = [], sess_closed = True\<rparr> \<and>
   Codec \<lparr>Handler = None, Codec = Some (\<lambda>v x. None)\<rparr> \<noteq> None \<and>
   Server_Respond \<lparr>Handler = None, Codec = Some (\<lambda>v x. None)\<rparr> [Inr \<lparr>events = []\<rparr>, Inl EOF] =
     Some \<lparr>ended = returned, accept_calls = 2, started = [\<lparr>events = []\<rparr>],
            sess_closed = True\<rparr> \<and>
   ended \<lparr>ended = returned, accept_calls = 2, started = [\<lparr>events = []\<rparr>],
            sess_closed = True\<rparr> \<noteq> panic_string ''rpc.Respond: nil codec''"
  using Respond_nil_codec [where srv = "\<lparr>Handler = None, Codec = None\<rparr>" and accepts = "[Inr \<lparr>events = []\<rparr>]"]
    Respond_nil_codec [where srv = "\<lparr>Handler = None, Codec = Some (\<lambda>v x. None)\<rparr>"
      and accepts = "[Inr \<lparr>events = []\<rparr>, Inl EOF]"]
  by (simp add: Server_Respond_def)

end
